theory Spec2Isabelle
  imports Main "HOL-Library.AList" "HOL-Library.Char_ord" "HOL-Library.List_Lexorder"
begin

section \<open>tap-todoist: a Singer tap over the Todoist sync endpoint\<close>

text \<open>
  The development follows the Python sources \<^verbatim>\<open>tap_todoist/catalog.py\<close>,
  \<^verbatim>\<open>tap_todoist/base_connector.py\<close> and \<^verbatim>\<open>tap_todoist/tap.py\<close>.
  A Python \<^verbatim>\<open>str\<close> is a \<^typ>\<open>string\<close> whose characters are code points below 256; a
  Python \<^verbatim>\<open>dict\<close> is an association list read with \<^const>\<open>map_of\<close> and written with
  \<^const>\<open>AList.update\<close>, which keeps the insertion order as Python does; a raised
  exception is the \<open>Inl\<close> branch of a sum.
\<close>

subsection \<open>Schema registry (\<^verbatim>\<open>catalog.py\<close>)\<close>

text \<open>
  The typing helpers of \<^verbatim>\<open>singer_sdk.typing\<close> used by the table: a property has a name,
  a wrapped type, the \<^verbatim>\<open>required\<close> flag (default \<^verbatim>\<open>False\<close>), an optional description and an
  optional list of allowed values. An object type lists its properties and may carry a
  type for additional properties.
\<close>

datatype JSONType =
    StringType
  | IntegerType
  | BooleanType
  | DateTimeType
  | ArrayType JSONType
  | ObjectType "Property list" "JSONType option"
and Property =
    Property (name: string) (wrapped: JSONType) (required: bool)
      (description: "string option") (allowed_values: "string list option")

type_synonym PropertiesList = "Property list"

text \<open>Shorthands for the call shapes that occur in the table.\<close>

definition th_prop :: "string \<Rightarrow> JSONType \<Rightarrow> Property" where
  "th_prop n t = Property n t False None None"

definition th_prop_d :: "string \<Rightarrow> JSONType \<Rightarrow> string \<Rightarrow> Property" where
  "th_prop_d n t d = Property n t False (Some d) None"

definition th_prop_req_d :: "string \<Rightarrow> JSONType \<Rightarrow> string \<Rightarrow> Property" where
  "th_prop_req_d n t d = Property n t True (Some d) None"

definition th_prop_av :: "string \<Rightarrow> JSONType \<Rightarrow> string list \<Rightarrow> Property" where
  "th_prop_av n t vs = Property n t False None (Some vs)"

definition th_prop_d_av :: "string \<Rightarrow> JSONType \<Rightarrow> string \<Rightarrow> string list \<Rightarrow> Property" where
  "th_prop_d_av n t d vs = Property n t False (Some d) (Some vs)"

definition projects_schema :: PropertiesList where
  "projects_schema =
    [ th_prop ''id'' StringType,
      th_prop ''name'' StringType,
      th_prop ''color'' StringType,
      th_prop ''parent_id'' StringType,
      th_prop ''child_order'' IntegerType,
      th_prop ''collapsed'' BooleanType,
      th_prop ''shared'' BooleanType,
      th_prop ''is_deleted'' BooleanType,
      th_prop ''is_archived'' BooleanType,
      th_prop ''is_favorite'' BooleanType,
      th_prop ''inbox_project'' BooleanType,
      th_prop ''team_inbox'' BooleanType,
      th_prop_av ''view_style'' StringType [''list'', ''board''] ]"

definition items_schema :: PropertiesList where
  "items_schema =
    [ th_prop ''id'' StringType,
      th_prop ''user_id'' StringType,
      th_prop ''project_id'' StringType,
      th_prop ''content'' StringType,
      th_prop ''description'' StringType,
      th_prop ''due''
        (ObjectType
          [ th_prop ''date'' StringType,
            th_prop ''is_recurring'' BooleanType,
            th_prop ''string'' StringType,
            th_prop ''timezone'' StringType,
            th_prop ''lang'' StringType ] None),
      th_prop ''priority'' IntegerType,
      th_prop ''parent_id'' StringType,
      th_prop ''child_order'' IntegerType,
      th_prop ''section_id'' StringType,
      th_prop ''day_order'' IntegerType,
      th_prop ''collapsed'' IntegerType,
      th_prop ''labels'' (ArrayType StringType),
      th_prop ''added_by_uid'' StringType,
      th_prop ''assigned_by_uid'' StringType,
      th_prop ''responsible_uid'' StringType,
      th_prop ''checked'' IntegerType,
      th_prop ''is_deleted'' BooleanType,
      th_prop ''completed_at'' StringType,
      th_prop ''added_at'' StringType ]"

definition sections_schema :: PropertiesList where
  "sections_schema =
    [ th_prop ''id'' StringType,
      th_prop ''name'' StringType,
      th_prop ''project_id'' StringType,
      th_prop ''section_order'' IntegerType,
      th_prop ''collapsed'' IntegerType,
      th_prop ''is_deleted'' BooleanType,
      th_prop ''is_archived'' BooleanType,
      th_prop ''archived_at'' StringType,
      th_prop ''added_at'' StringType ]"

definition labels_schema :: PropertiesList where
  "labels_schema =
    [ th_prop ''id'' StringType,
      th_prop ''name'' StringType,
      th_prop ''color'' StringType,
      th_prop ''item_order'' IntegerType,
      th_prop ''is_deleted'' BooleanType,
      th_prop ''is_favorite'' BooleanType ]"

definition notes_schema :: PropertiesList where
  "notes_schema =
    [ th_prop_req_d ''id'' StringType ''The ID of the note.'',
      th_prop_d ''posted_uid'' StringType ''The ID of the user that posted the note.'',
      th_prop_d ''item_id'' StringType ''The item which the is part of.'',
      th_prop_d ''content'' StringType ''The content of the note.'',
      th_prop_d ''file_attachment''
        (ObjectType
          [ th_prop_d ''file_name'' StringType ''The name of the file.'',
            th_prop_d ''file_size'' IntegerType ''The size of the file in bytes.'',
            th_prop_d ''file_type'' StringType
              ''MIME type (for example `text/plain` or `image/png`).'',
            th_prop_d ''file_url'' StringType ''The URL where the file is located.'',
            th_prop_d ''upload_state'' StringType
              ''Upload completion state (for example `pending` or `completed`).'' ] None)
        ''A file attached to the note.'',
      th_prop_d ''is_deleted'' BooleanType ''Whether the note is marked as deleted.'',
      th_prop_d ''posted_at'' DateTimeType ''The date and time when the note was posted.'',
      th_prop_d ''reactions''
        (ObjectType [] (Some (ArrayType (ArrayType StringType))))
        ''List of emoji reactions and corresponding user IDs.'' ]"

definition filters_schema :: PropertiesList where
  "filters_schema =
    [ th_prop_req_d ''id'' StringType ''The ID of the filter.'',
      th_prop_d ''name'' StringType ''The name of the filter.'',
      th_prop_d ''query'' StringType ''The query to search for.'',
      th_prop_d_av ''color'' StringType ''The color of the filter icon.''
        [ ''berry_red'', ''red'', ''orange'', ''yellow'', ''olive_green'', ''lime_green'',
          ''green'', ''mint_green'', ''teal'', ''sky_blue'', ''light_blue'', ''blue'',
          ''grape'', ''violet'', ''lavender'', ''magenta'', ''salmon'', ''charcoal'',
          ''grey'', ''taupe'' ],
      th_prop_d ''item_order'' IntegerType ''Filter's order in the filter list.'',
      th_prop_d ''is_deleted'' BooleanType ''Whether the filter is marked as deleted.'',
      th_prop_d ''is_favorite'' BooleanType ''Whether the filter is a favorite.'' ]"

definition reminders_schema :: PropertiesList where
  "reminders_schema =
    [ th_prop_req_d ''id'' StringType ''The ID of the reminder.'',
      th_prop_d ''notify_uid'' StringType
        ''The user ID which should be notified of the reminder.'',
      th_prop_d ''item_id'' StringType ''The item ID which the reminder is about.'',
      th_prop_d_av ''type'' StringType ''The type of the reminder.''
        [''relative'', ''absolute'', ''location''],
      th_prop_d ''nm_offset'' IntegerType
        ''The relative time in minutes before the reminder before the due date of the item, in which the reminder should be triggered.'',
      th_prop_d ''loc_lat'' StringType ''The location latitude.'',
      th_prop_d ''loc_long'' StringType ''The location longitude.'',
      th_prop_d_av ''loc_trigger'' StringType ''What should trigger the reminder.''
        [''on_enter'', ''on_leave''],
      th_prop_d ''radius'' IntegerType
        ''The radius of the location that is still considered to as part of the location.'',
      th_prop_d ''is_deleted'' IntegerType ''Whether the reminder is marked as deleted.'' ]"

text \<open>The table itself, in the order in which the source lists its keys.\<close>

definition SCHEMAS :: "(string \<times> PropertiesList) list" where
  "SCHEMAS =
    [ (''projects'', projects_schema),
      (''items'', items_schema),
      (''sections'', sections_schema),
      (''labels'', labels_schema),
      (''notes'', notes_schema),
      (''filters'', filters_schema),
      (''reminders'', reminders_schema) ]"

text \<open>\<^verbatim>\<open>SCHEMAS[name]\<close>: a lookup in the table, \<^verbatim>\<open>KeyError\<close> for a name that is not a key.\<close>

datatype error =
    KeyError string
  | TypeError
  | HTTPError nat
  | JSONDecodeError
  | ConnectionError

definition schema_for :: "string \<Rightarrow> error + PropertiesList" where
  "schema_for stream_name =
     (case map_of SCHEMAS stream_name of
        None \<Rightarrow> Inl (KeyError stream_name)
      | Some properties \<Rightarrow> Inr properties)"

text \<open>
  \<^verbatim>\<open>PropertiesList.to_dict\<close> and \<^verbatim>\<open>Schema.from_dict\<close> belong to the SDK; their results are
  kept symbolic, as constructors applied to the property list they are computed from.
\<close>

datatype SchemaDict = PropertiesList_to_dict PropertiesList

datatype Schema = Schema_from_dict SchemaDict

definition to_schema :: "PropertiesList \<Rightarrow> Schema" where
  "to_schema self = Schema_from_dict (PropertiesList_to_dict self)"

text \<open>The keys of \<^verbatim>\<open>schema["properties"]\<close>: one per property of the list.\<close>

fun schema_properties :: "SchemaDict \<Rightarrow> string list" where
  "schema_properties (PropertiesList_to_dict properties) = map name properties"

subsection \<open>Values of parsed JSON and Python subscription\<close>

text \<open>
  What \<^verbatim>\<open>response.json()\<close> can return. \<open>JNull\<close> is Python's \<^verbatim>\<open>None\<close>; a float is kept
  as mantissa and binary exponent; an object is a \<^verbatim>\<open>dict\<close>.
\<close>

datatype json =
    JNull
  | JBool bool
  | JInt int
  | JFloat int int
  | JString string
  | JArray "json list"
  | JObject "(string \<times> json) list"

text \<open>
  \<^verbatim>\<open>obj[key]\<close> for a string key: a \<^verbatim>\<open>dict\<close> answers or raises \<^verbatim>\<open>KeyError\<close>; \<^verbatim>\<open>None\<close>,
  numbers and booleans are not subscriptable, lists and strings want integer indices:
  all of these raise \<^verbatim>\<open>TypeError\<close>.
\<close>

fun getitem :: "json \<Rightarrow> string \<Rightarrow> error + json" where
  "getitem (JObject kvs) key =
     (case map_of kvs key of None \<Rightarrow> Inl (KeyError key) | Some v \<Rightarrow> Inr v)"
| "getitem _ key = Inl TypeError"

text \<open>Whether a parsed document is a \<^verbatim>\<open>dict\<close> that has the key.\<close>

fun has_key :: "json \<Rightarrow> string \<Rightarrow> bool" where
  "has_key (JObject kvs) key = (map_of kvs key \<noteq> None)"
| "has_key _ key = False"

subsection \<open>\<^verbatim>\<open>json.dumps\<close> on a list of strings\<close>

text \<open>
  The standard encoder with its defaults (\<^verbatim>\<open>ensure_ascii=True\<close>, separators \<^verbatim>\<open>", "\<close>):
  inside a string, the backslash, the double quote and every character outside the range
  from space to tilde are escaped, by a short escape where one exists and by
  \<^verbatim>\<open>\u00xx\<close> with lower-case hexadecimal digits otherwise.
\<close>

definition hexdigit :: "nat \<Rightarrow> char" where
  "hexdigit n = ''0123456789abcdef'' ! (n mod 16)"

definition encode_char :: "char \<Rightarrow> string" where
  "encode_char c =
     (if c = CHR 0x5C then [CHR 0x5C, CHR 0x5C]
      else if c = CHR 0x22 then [CHR 0x5C, CHR 0x22]
      else if c = CHR 0x08 then [CHR 0x5C, CHR ''b'']
      else if c = CHR 0x0C then [CHR 0x5C, CHR ''f'']
      else if c = CHR 0x0A then [CHR 0x5C, CHR ''n'']
      else if c = CHR 0x0D then [CHR 0x5C, CHR ''r'']
      else if c = CHR 0x09 then [CHR 0x5C, CHR ''t'']
      else if (of_char c :: nat) < 0x20 \<or> 0x7E < (of_char c :: nat) then
        [CHR 0x5C, CHR ''u'', CHR ''0'', CHR ''0'',
         hexdigit (of_char c div 16), hexdigit (of_char c mod 16)]
      else [c])"

definition encode_basestring_ascii :: "string \<Rightarrow> string" where
  "encode_basestring_ascii s = [CHR 0x22] @ concat (map encode_char s) @ [CHR 0x22]"

text \<open>\<^verbatim>\<open>sep.join(parts)\<close>.\<close>

fun join :: "string \<Rightarrow> string list \<Rightarrow> string" where
  "join sep [] = []"
| "join sep [x] = x"
| "join sep (x # y # ys) = x @ sep @ join sep (y # ys)"

definition json_dumps :: "string list \<Rightarrow> string" where
  "json_dumps xs =
     (if xs = [] then ''[]''
      else ''['' @ join '', '' (map encode_basestring_ascii xs) @ '']'')"

text \<open>
  The reading direction, to say what a body field decodes to: a recogniser of JSON arrays
  of strings, run over the text one character at a time. It accepts blanks between
  tokens, the escapes of the JSON grammar and \<^verbatim>\<open>\uXXXX\<close> for code points below 256, and
  rejects raw control characters inside a string.
\<close>

datatype decoder =
    Start
  | Opened
  | InStr string "string list"
  | Escaped string "string list"
  | Hex nat nat string "string list"
  | AfterStr "string list"
  | AfterComma "string list"
  | Finished "string list"
  | Failed

definition hexval :: "char \<Rightarrow> nat option" where
  "hexval c =
     (let n = (of_char c :: nat) in
      if 48 \<le> n \<and> n \<le> 57 then Some (n - 48)
      else if 97 \<le> n \<and> n \<le> 102 then Some (n - 87)
      else if 65 \<le> n \<and> n \<le> 70 then Some (n - 55)
      else None)"

definition blank :: "char \<Rightarrow> bool" where
  "blank c = (c = CHR '' '' \<or> c = CHR 0x09 \<or> c = CHR 0x0A \<or> c = CHR 0x0D)"

fun step :: "decoder \<Rightarrow> char \<Rightarrow> decoder" where
  "step Start c =
     (if blank c then Start else if c = CHR ''['' then Opened else Failed)"
| "step Opened c =
     (if blank c then Opened
      else if c = CHR 0x22 then InStr [] []
      else if c = CHR '']'' then Finished []
      else Failed)"
| "step (InStr acc items) c =
     (if c = CHR 0x22 then AfterStr (rev acc # items)
      else if c = CHR 0x5C then Escaped acc items
      else if (of_char c :: nat) < 0x20 then Failed
      else InStr (c # acc) items)"
| "step (Escaped acc items) c =
     (if c = CHR 0x22 \<or> c = CHR 0x5C \<or> c = CHR ''/'' then InStr (c # acc) items
      else if c = CHR ''b'' then InStr (CHR 0x08 # acc) items
      else if c = CHR ''f'' then InStr (CHR 0x0C # acc) items
      else if c = CHR ''n'' then InStr (CHR 0x0A # acc) items
      else if c = CHR ''r'' then InStr (CHR 0x0D # acc) items
      else if c = CHR ''t'' then InStr (CHR 0x09 # acc) items
      else if c = CHR ''u'' then Hex 0 0 acc items
      else Failed)"
| "step (Hex i v acc items) c =
     (case hexval c of
        None \<Rightarrow> Failed
      | Some d \<Rightarrow>
          if i < 3 then Hex (i + 1) (16 * v + d) acc items
          else if 16 * v + d < 256 then InStr (char_of (16 * v + d) # acc) items
          else Failed)"
| "step (AfterStr items) c =
     (if blank c then AfterStr items
      else if c = CHR '','' then AfterComma items
      else if c = CHR '']'' then Finished items
      else Failed)"
| "step (AfterComma items) c =
     (if blank c then AfterComma items
      else if c = CHR 0x22 then InStr [] items
      else Failed)"
| "step (Finished items) c = (if blank c then Finished items else Failed)"
| "step Failed c = Failed"

definition json_loads :: "string \<Rightarrow> string list option" where
  "json_loads s =
     (case foldl step Start s of Finished items \<Rightarrow> Some (rev items) | _ \<Rightarrow> None)"

subsection \<open>Requests, responses and bearer authentication\<close>

text \<open>
  The headers of a prepared request are a \<^verbatim>\<open>CaseInsensitiveDict\<close>: an entry is stored under
  the lower-cased name, together with the name as it was last written.
\<close>

definition lower_char :: "char \<Rightarrow> char" where
  "lower_char c =
     (let n = (of_char c :: nat) in
      if (65 \<le> n \<and> n \<le> 90) \<or> (192 \<le> n \<and> n \<le> 222 \<and> n \<noteq> 215)
      then char_of (n + 32) else c)"

definition lower :: "string \<Rightarrow> string" where
  "lower s = map lower_char s"

type_synonym CaseInsensitiveDict = "(string \<times> (string \<times> string)) list"

definition cid_setitem :: "string \<Rightarrow> string \<Rightarrow> CaseInsensitiveDict \<Rightarrow> CaseInsensitiveDict" where
  "cid_setitem key v d = AList.update (lower key) (key, v) d"

definition cid_getitem :: "CaseInsensitiveDict \<Rightarrow> string \<Rightarrow> string option" where
  "cid_getitem d key = map_option snd (map_of d (lower key))"

record PreparedRequest =
  http_method :: string
  url :: string
  headers :: CaseInsensitiveDict
  body :: "(string \<times> string) list"

record Response =
  status_code :: nat
  json_body :: "json option"

text \<open>\<^verbatim>\<open>class BearerAuth\<close>: the constructor stores the token, the call writes the header.\<close>

datatype BearerAuth = BearerAuth (token: string)

definition BearerAuth_call :: "BearerAuth \<Rightarrow> PreparedRequest \<Rightarrow> PreparedRequest" where
  "BearerAuth_call self request =
     request\<lparr>headers := cid_setitem ''Authorization'' (''Bearer '' @ token self) (headers request)\<rparr>"

text \<open>
  \<^verbatim>\<open>Response.raise_for_status\<close> raises \<^verbatim>\<open>HTTPError\<close> for the client and server error
  statuses, 400 to 599, and returns for every other status. \<^verbatim>\<open>Response.json\<close> raises
  when the body is not JSON.
\<close>

definition raise_for_status :: "Response \<Rightarrow> error + unit" where
  "raise_for_status response =
     (if 400 \<le> status_code response \<and> status_code response < 600
      then Inl (HTTPError (status_code response)) else Inr ())"

definition response_json :: "Response \<Rightarrow> error + json" where
  "response_json response =
     (case json_body response of None \<Rightarrow> Inl JSONDecodeError | Some doc \<Rightarrow> Inr doc)"

text \<open>What lies beyond the session: a request is answered by a response, or the transport raises.\<close>

type_synonym http = "PreparedRequest \<Rightarrow> error + Response"

subsection \<open>Catalog entries and their metadata\<close>

text \<open>
  The Singer library's metadata: a mapping from breadcrumbs to entries, the stream's own
  entry under the empty breadcrumb. The fields that only a stream entry carries are
  \<open>None\<close> in the entries of properties.
\<close>

datatype InclusionType = AVAILABLE | AUTOMATIC | UNSUPPORTED

record Metadata =
  inclusion :: "InclusionType option"
  selected :: "bool option"
  selected_by_default :: "bool option"
  table_key_properties :: "string list option"
  forced_replication_method :: "string option"
  valid_replication_keys :: "string list option"

type_synonym Breadcrumb = "string list"

type_synonym MetadataMapping = "(Breadcrumb \<times> Metadata) list"

definition Metadata_init :: Metadata where
  "Metadata_init =
     \<lparr>inclusion = None, selected = None, selected_by_default = None,
      table_key_properties = None, forced_replication_method = None,
      valid_replication_keys = None\<rparr>"

definition REPLICATION_LOG_BASED :: string where
  "REPLICATION_LOG_BASED = ''LOG_BASED''"

text \<open>
  \<^verbatim>\<open>MetadataMapping.get_standard_metadata\<close>: with a schema, the stream entry is available
  and every property of the schema gets an entry, automatic for a key property or a
  replication key and available otherwise.
\<close>

definition field_metadata :: "string list option \<Rightarrow> string list option \<Rightarrow> string \<Rightarrow> Metadata" where
  "field_metadata key_props repl_keys field_name =
     (if (case key_props of None \<Rightarrow> False | Some ks \<Rightarrow> field_name \<in> set ks)
         \<or> (case repl_keys of None \<Rightarrow> False | Some ks \<Rightarrow> field_name \<in> set ks)
      then Metadata_init\<lparr>inclusion := Some AUTOMATIC\<rparr>
      else Metadata_init\<lparr>inclusion := Some AVAILABLE\<rparr>)"

definition get_standard_metadata ::
  "SchemaDict \<Rightarrow> string option \<Rightarrow> string list option \<Rightarrow> string list option \<Rightarrow> MetadataMapping" where
  "get_standard_metadata schema_dict replication_method key_props repl_keys =
     (let root = Metadata_init
            \<lparr>inclusion := Some AVAILABLE,
             table_key_properties := key_props,
             forced_replication_method := replication_method,
             valid_replication_keys := repl_keys\<rparr>;
          mapping = foldl
            (\<lambda>m field_name.
               AList.update [''properties'', field_name]
                 (field_metadata key_props repl_keys field_name) m)
            [] (schema_properties schema_dict)
      in AList.update [] root mapping)"

text \<open>
  \<^verbatim>\<open>metadata.resolve_selection()[()]\<close>: the mask of the stream itself. A mapping without
  a stream entry answers \<^verbatim>\<open>True\<close>; otherwise an unsupported entry is never selected, an
  automatic one always, and then \<^verbatim>\<open>selected\<close> decides before \<^verbatim>\<open>selected_by_default\<close>.
\<close>

definition resolve_selection_root :: "MetadataMapping \<Rightarrow> bool" where
  "resolve_selection_root mapping =
     (case map_of mapping [] of
        None \<Rightarrow> True
      | Some md \<Rightarrow>
          if inclusion md = Some UNSUPPORTED then False
          else if inclusion md = Some AUTOMATIC then True
          else (case selected md of
                  Some b \<Rightarrow> b
                | None \<Rightarrow> (case selected_by_default md of Some b \<Rightarrow> b | None \<Rightarrow> False)))"

record CatalogEntry =
  tap_stream_id :: string
  metadata :: MetadataMapping
  schema :: Schema
  key_properties :: "string list option"
  replication_method :: "string option"

text \<open>A \<^verbatim>\<open>Catalog\<close> is a dictionary from stream identifiers to entries.\<close>

type_synonym Catalog = "(string \<times> CatalogEntry) list"

definition streams :: "Catalog \<Rightarrow> CatalogEntry list" where
  "streams catalog = map snd catalog"

type_synonym ConfigDict = "(string \<times> string) list"

type_synonym StateDict = "(string \<times> json) list"

subsection \<open>The API client (\<^verbatim>\<open>base_connector.py\<close>, \<^verbatim>\<open>tap.py\<close>)\<close>

text \<open>
  What a run does that can be seen from outside, in order: a discovery, a request handed
  to the network, the read of a stream's records.
\<close>

datatype event = Discover | Request PreparedRequest | Read string

text \<open>
  The state of a \<^verbatim>\<open>TodoistClient\<close>: the fields set by the two constructors, the \<^verbatim>\<open>auth\<close>
  attribute of its cached session, and the trace of events so far. \<open>data\<close> is the
  attribute \<^verbatim>\<open>_data\<close>, \<open>JNull\<close> while it is \<^verbatim>\<open>None\<close>.
\<close>

record TodoistClient =
  config :: "ConfigDict option"
  catalog :: Catalog
  session_auth :: "BearerAuth option"
  data :: json
  trace :: "event list"

definition TodoistClient_init :: TodoistClient where
  "TodoistClient_init =
     \<lparr>config = None, catalog = [], session_auth = None, data = JNull, trace = []\<rparr>"

text \<open>\<^verbatim>\<open>get_auth\<close>: \<^verbatim>\<open>BearerAuth(config["token"])\<close>.\<close>

definition get_auth :: "ConfigDict \<Rightarrow> Catalog \<Rightarrow> StateDict \<Rightarrow> error + BearerAuth" where
  "get_auth cfg cat st =
     (case map_of cfg ''token'' of
        None \<Rightarrow> Inl (KeyError ''token'')
      | Some t \<Rightarrow> Inr (BearerAuth t))"

text \<open>\<^verbatim>\<open>get_data\<close>: the loop over \<^verbatim>\<open>catalog.streams\<close> appends the identifier of every selected entry.\<close>

definition selected_streams :: "Catalog \<Rightarrow> string list" where
  "selected_streams cat =
     foldl
       (\<lambda>acc entry.
          if resolve_selection_root (metadata entry) then acc @ [tap_stream_id entry] else acc)
       [] (streams cat)"

definition get_data :: "ConfigDict \<Rightarrow> Catalog \<Rightarrow> StateDict \<Rightarrow> (string \<times> string) list" where
  "get_data cfg cat st =
     [(''sync_token'', ''*''), (''resource_types'', json_dumps (selected_streams cat))]"

text \<open>\<^verbatim>\<open>prepare_session\<close> and \<^verbatim>\<open>HTTPConnector.prepare\<close>: the session's \<^verbatim>\<open>auth\<close> is set from \<^verbatim>\<open>get_auth\<close>.\<close>

definition prepare_session ::
  "ConfigDict \<Rightarrow> Catalog \<Rightarrow> StateDict \<Rightarrow> TodoistClient \<Rightarrow> (error + unit) \<times> TodoistClient" where
  "prepare_session cfg cat st self =
     (case get_auth cfg cat st of
        Inl e \<Rightarrow> (Inl e, self)
      | Inr auth \<Rightarrow> (Inr (), self\<lparr>session_auth := Some auth\<rparr>))"

definition HTTPConnector_prepare ::
  "ConfigDict \<Rightarrow> Catalog \<Rightarrow> StateDict \<Rightarrow> TodoistClient \<Rightarrow> (error + unit) \<times> TodoistClient" where
  "HTTPConnector_prepare cfg cat st self = prepare_session cfg cat st self"

text \<open>
  \<^verbatim>\<open>send_request\<close>: the session prepares the request from the method, the address, the
  headers and the form data, lets its \<^verbatim>\<open>auth\<close> act on it when there is one, and sends it.
\<close>

definition session_prepare_request ::
  "BearerAuth option \<Rightarrow> string \<Rightarrow> string \<Rightarrow> (string \<times> string) list \<Rightarrow> (string \<times> string) list
     \<Rightarrow> PreparedRequest" where
  "session_prepare_request auth m u hdrs form =
     (let request =
            \<lparr>http_method = m, url = u,
             headers = foldl (\<lambda>d kv. cid_setitem (fst kv) (snd kv) d) [] hdrs,
             body = form\<rparr>
      in case auth of None \<Rightarrow> request | Some a \<Rightarrow> BearerAuth_call a request)"

definition send_request ::
  "http \<Rightarrow> string \<Rightarrow> string \<Rightarrow> (string \<times> string) list \<Rightarrow> (string \<times> string) list
     \<Rightarrow> TodoistClient \<Rightarrow> (error + Response) \<times> TodoistClient" where
  "send_request net m u hdrs form self =
     (let request = session_prepare_request (session_auth self) m u hdrs form
      in (net request, self\<lparr>trace := trace self @ [Request request]\<rparr>))"

definition sync_url :: string where
  "sync_url = ''https://api.todoist.com/sync/v9/sync''"

definition sync_headers :: "(string \<times> string) list" where
  "sync_headers = [(''Content-Type'', ''application/x-www-form-urlencoded'')]"

text \<open>
  \<^verbatim>\<open>TodoistClient.prepare\<close>: the base class's step, the one POST, the status check, the
  parse, the assignment to \<^verbatim>\<open>_data\<close>, and the two log lines, each of which subscripts the
  stored document.
\<close>

definition prepare ::
  "http \<Rightarrow> ConfigDict \<Rightarrow> Catalog \<Rightarrow> StateDict \<Rightarrow> TodoistClient \<Rightarrow> (error + unit) \<times> TodoistClient" where
  "prepare net cfg cat st self =
     (case HTTPConnector_prepare cfg cat st self of
        (Inl e, s1) \<Rightarrow> (Inl e, s1)
      | (Inr _, s1) \<Rightarrow>
     (case send_request net ''POST'' sync_url sync_headers (get_data cfg cat st) s1 of
        (Inl e, s2) \<Rightarrow> (Inl e, s2)
      | (Inr response, s2) \<Rightarrow>
     (case raise_for_status response of
        Inl e \<Rightarrow> (Inl e, s2)
      | Inr _ \<Rightarrow>
     (case response_json response of
        Inl e \<Rightarrow> (Inl e, s2)
      | Inr doc \<Rightarrow>
     (let s3 = s2\<lparr>data := doc\<rparr> in
      case getitem (data s3) ''full_sync'' of
        Inl e \<Rightarrow> (Inl e, s3)
      | Inr _ \<Rightarrow>
     (case getitem (data s3) ''sync_token'' of
        Inl e \<Rightarrow> (Inl e, s3)
      | Inr _ \<Rightarrow> (Inr (), s3)))))))"

text \<open>
  \<^verbatim>\<open>discover_catalog_entries\<close>: one entry per key of the table, in the table's order.
  The configuration is not looked at.
\<close>

definition discover_catalog_entries :: "ConfigDict option \<Rightarrow> CatalogEntry list" where
  "discover_catalog_entries cfg =
     map (\<lambda>(key, properties).
            \<lparr>tap_stream_id = key,
             metadata = get_standard_metadata (PropertiesList_to_dict properties)
                          (Some REPLICATION_LOG_BASED) (Some [''id'']) None,
             schema = to_schema properties,
             key_properties = Some [''id''],
             replication_method = None\<rparr>)
         SCHEMAS"

text \<open>
  \<^verbatim>\<open>entry.metadata.root.selected = True\<close>; a mapping without a stream entry gets a fresh one
  on this access.
\<close>

definition set_root_selected :: "MetadataMapping \<Rightarrow> MetadataMapping" where
  "set_root_selected mapping =
     (let root = (case map_of mapping [] of None \<Rightarrow> Metadata_init | Some md \<Rightarrow> md)
      in AList.update [] (root\<lparr>selected := Some True\<rparr>) mapping)"

text \<open>
  \<^verbatim>\<open>HTTPConnector.discover\<close>: every entry is marked selected and stored in the client's
  catalog under its identifier; the catalog is returned.
\<close>

definition discover :: "ConfigDict \<Rightarrow> TodoistClient \<Rightarrow> Catalog \<times> TodoistClient" where
  "discover cfg self =
     (let cat = foldl
            (\<lambda>c entry.
               AList.update (tap_stream_id entry)
                 (entry\<lparr>metadata := set_root_selected (metadata entry)\<rparr>) c)
            (catalog self) (discover_catalog_entries None)
      in (cat, self\<lparr>catalog := cat, trace := trace self @ [Discover]\<rparr>))"

subsection \<open>Streams and the tap\<close>

record SyncStream =
  stream_schema :: Schema
  stream_name :: string

text \<open>\<^verbatim>\<open>SyncStream.get_records\<close>: \<^verbatim>\<open>self.connector.data[self.name]\<close>, on the connector as it is then.\<close>

definition get_records :: "TodoistClient \<Rightarrow> string \<Rightarrow> error + json" where
  "get_records connector stream = getitem (data connector) stream"

text \<open>
  The tap: its configuration, its catalog (the SDK's \<^verbatim>\<open>self.catalog\<close>, which may be absent
  or empty), its state and its client.
\<close>

record TapTodoist =
  tap_config :: ConfigDict
  tap_catalog :: "Catalog option"
  tap_state :: StateDict
  client :: TodoistClient

text \<open>\<^verbatim>\<open>_singer_catalog\<close>: the client's discovery, with the tap's configuration.\<close>

definition singer_catalog :: "TapTodoist \<Rightarrow> Catalog \<times> TapTodoist" where
  "singer_catalog self =
     (case discover (tap_config self) (client self) of
        (cat, c) \<Rightarrow> (cat, self\<lparr>client := c\<rparr>))"

text \<open>
  \<^verbatim>\<open>self.catalog_dict["streams"]\<close>: the SDK's property renders \<^verbatim>\<open>_singer_catalog\<close> as a
  dictionary, so every read of it runs the client's discovery.
\<close>

definition catalog_dict :: "TapTodoist \<Rightarrow> CatalogEntry list \<times> TapTodoist" where
  "catalog_dict self =
     (case singer_catalog self of (cat, self') \<Rightarrow> (streams cat, self'))"

text \<open>\<^verbatim>\<open>discover_streams\<close>: one \<^verbatim>\<open>SyncStream\<close> for each entry of \<^verbatim>\<open>catalog_dict["streams"]\<close>.\<close>

definition discover_streams :: "TapTodoist \<Rightarrow> SyncStream list \<times> TapTodoist" where
  "discover_streams self =
     (case catalog_dict self of
        (entries, self') \<Rightarrow>
          (map (\<lambda>entry. \<lparr>stream_schema = schema entry, stream_name = tap_stream_id entry\<rparr>)
             entries,
           self'))"

text \<open>
  The SDK's \<^verbatim>\<open>load_streams\<close> returns the streams of \<^verbatim>\<open>discover_streams\<close> sorted by name,
  and its \<^verbatim>\<open>streams\<close> property keeps them in a dictionary by name. A tap loads its streams
  on their first use, which in a run is the SDK's \<^verbatim>\<open>sync_all\<close>.
\<close>

definition load_streams :: "TapTodoist \<Rightarrow> SyncStream list \<times> TapTodoist" where
  "load_streams self =
     (case discover_streams self of (found, self') \<Rightarrow> (sort_key stream_name found, self'))"

definition Tap_streams :: "TapTodoist \<Rightarrow> SyncStream list \<times> TapTodoist" where
  "Tap_streams self =
     (case load_streams self of
        (loaded, self') \<Rightarrow>
          (map snd (foldl (\<lambda>d s. AList.update (stream_name s) s d) [] loaded), self'))"

text \<open>
  The SDK's \<^verbatim>\<open>Tap.sync_all\<close>, as far as this repository takes part in it: the streams are
  loaded and synced one after the other, a stream that the SDK finds deselected is
  skipped, a synced stream is read through \<^verbatim>\<open>get_records\<close>, and the first exception ends
  the run.
\<close>

fun sync_streams ::
  "SyncStream list \<Rightarrow> TodoistClient \<Rightarrow> (error + unit) \<times> TodoistClient" where
  "sync_streams [] c = (Inr (), c)"
| "sync_streams (s # ss) c =
     (let c' = c\<lparr>trace := trace c @ [Read (stream_name s)]\<rparr>
      in case get_records c' (stream_name s) of
           Inl e \<Rightarrow> (Inl e, c')
         | Inr records \<Rightarrow> sync_streams ss c')"

definition Tap_sync_all ::
  "(SyncStream \<Rightarrow> bool) \<Rightarrow> TapTodoist \<Rightarrow> (error + unit) \<times> TapTodoist" where
  "Tap_sync_all is_selected self =
     (case Tap_streams self of
        (loaded, self') \<Rightarrow>
     (case sync_streams (filter is_selected loaded) (client self') of
        (r, c) \<Rightarrow> (r, self'\<lparr>client := c\<rparr>)))"

text \<open>
  \<^verbatim>\<open>self.catalog or self.client.catalog\<close>: the tap's catalog unless it is absent or empty.
\<close>

definition prepare_catalog :: "TapTodoist \<Rightarrow> TodoistClient \<Rightarrow> Catalog" where
  "prepare_catalog self c =
     (case tap_catalog self of
        None \<Rightarrow> catalog c
      | Some tc \<Rightarrow> if tc = [] then catalog c else tc)"

text \<open>
  \<^verbatim>\<open>TapTodoist.sync_all\<close>: discovery, then \<^verbatim>\<open>prepare\<close>, then the SDK's procedure. An
  exception of \<^verbatim>\<open>prepare\<close> leaves the method at once.
\<close>

definition sync_all ::
  "http \<Rightarrow> (SyncStream \<Rightarrow> bool) \<Rightarrow> TapTodoist \<Rightarrow> (error + unit) \<times> TapTodoist" where
  "sync_all net is_selected self =
     (case discover (tap_config self) (client self) of
        (discovered, c1) \<Rightarrow>
     (case prepare net (tap_config self) (prepare_catalog self c1) (tap_state self) c1 of
        (Inl e, c2) \<Rightarrow> (Inl e, self\<lparr>client := c2\<rparr>)
      | (Inr _, c2) \<Rightarrow> Tap_sync_all is_selected (self\<lparr>client := c2\<rparr>)))"

text \<open>The tap's configuration schema: one property, the required token.\<close>

definition config_jsonschema :: PropertiesList where
  "config_jsonschema =
     [Property ''token'' StringType True (Some ''API token for the todoist API'') None]"

text \<open>The names a configuration must have: the \<^verbatim>\<open>required\<close> list of the schema's dictionary.\<close>

definition required_names :: "PropertiesList \<Rightarrow> string list" where
  "required_names properties = map name (filter required properties)"

subsection \<open>The phases of a run\<close>

text \<open>
  The run's state machine as the specification words it: from uninitialised to
  discovered by a discovery, to fetched by the one request, to emitting by a read, and
  further reads stay there. Any other event is out of order.
\<close>

datatype phase = Uninitialized | Discovered | Fetched | Emitting | OutOfOrder

fun advance :: "phase \<Rightarrow> event \<Rightarrow> phase" where
  "advance Uninitialized Discover = Discovered"
| "advance Discovered (Request r) = Fetched"
| "advance Fetched (Read s) = Emitting"
| "advance Emitting (Read s) = Emitting"
| "advance _ _ = OutOfOrder"

definition single_pass :: "event list \<Rightarrow> bool" where
  "single_pass evs = (foldl advance Uninitialized evs \<noteq> OutOfOrder)"

text \<open>
  The order in which the code runs, to compare: after the request the streams are
  loaded, which is a second discovery, and only then are streams read.
\<close>

datatype stage =
  NotStarted | CatalogBuilt | ResponseStored | StreamsLoaded | ReadingStreams | Misordered

fun proceed :: "stage \<Rightarrow> event \<Rightarrow> stage" where
  "proceed NotStarted Discover = CatalogBuilt"
| "proceed CatalogBuilt (Request r) = ResponseStored"
| "proceed ResponseStored Discover = StreamsLoaded"
| "proceed StreamsLoaded (Read s) = ReadingStreams"
| "proceed ReadingStreams (Read s) = ReadingStreams"
| "proceed _ _ = Misordered"

definition in_order :: "event list \<Rightarrow> bool" where
  "in_order evs = (foldl proceed NotStarted evs \<noteq> Misordered)"

text \<open>An event in words.\<close>

fun event_name :: "event \<Rightarrow> string" where
  "event_name Discover = ''discover''"
| "event_name (Request r) = ''request''"
| "event_name (Read s) = ''read '' @ s"

fun is_read :: "event \<Rightarrow> bool" where
  "is_read (Read s) = True"
| "is_read _ = False"

fun is_request :: "event \<Rightarrow> bool" where
  "is_request (Request r) = True"
| "is_request _ = False"

text \<open>
  The specification's names for the failures: a configuration without the token, a
  refused request, a stream that cannot be found in the stored response.
\<close>

fun ConfigurationError :: "error \<Rightarrow> bool" where
  "ConfigurationError (KeyError k) = (k = ''token'')"
| "ConfigurationError _ = False"

fun TransportError :: "error \<Rightarrow> bool" where
  "TransportError (HTTPError status) = True"
| "TransportError _ = False"

fun MissingStreamError :: "error \<Rightarrow> bool" where
  "MissingStreamError (KeyError k) = True"
| "MissingStreamError TypeError = True"
| "MissingStreamError _ = False"

subsection \<open>Example inputs\<close>

text \<open>A catalog of three entries, the second one deselected by its metadata.\<close>

definition example_entry :: "string \<Rightarrow> bool \<Rightarrow> CatalogEntry" where
  "example_entry stream sel =
     \<lparr>tap_stream_id = stream,
      metadata = [([], Metadata_init\<lparr>inclusion := Some AVAILABLE, selected := Some sel\<rparr>)],
      schema = to_schema [],
      key_properties = Some [''id''],
      replication_method = None\<rparr>"

definition example_catalog :: Catalog where
  "example_catalog =
     [(''projects'', example_entry ''projects'' True),
      (''items'', example_entry ''items'' False),
      (''labels'', example_entry ''labels'' True)]"

text \<open>A request as the session prepares it before authentication, and a sync response.\<close>

definition example_request :: PreparedRequest where
  "example_request =
     session_prepare_request None ''POST'' sync_url sync_headers
       [(''sync_token'', ''*''), (''resource_types'', ''[]'')]"

definition example_document :: json where
  "example_document =
     JObject
       [(''projects'', JArray [JObject [(''id'', JString ''1''), (''name'', JString ''A'')]]),
        (''sync_token'', JString ''abc''),
        (''full_sync'', JBool True)]"

text \<open>A network that answers every request with the same response.\<close>

definition answer_with :: "Response \<Rightarrow> http" where
  "answer_with response request = Inr response"

definition example_config :: ConfigDict where
  "example_config = [(''token'', ''secret'')]"

text \<open>A tap with a fresh client and no catalog of its own.\<close>

definition example_tap :: TapTodoist where
  "example_tap =
     \<lparr>tap_config = example_config, tap_catalog = None, tap_state = [],
      client = TodoistClient_init\<rparr>"

text \<open>The SDK finds every stream selected.\<close>

definition every_stream :: "SyncStream \<Rightarrow> bool" where
  "every_stream s = True"

text \<open>A sync response with a collection for each of the seven streams.\<close>

definition example_full_document :: json where
  "example_full_document =
     JObject
       [(''projects'', JArray [JObject [(''id'', JString ''1''), (''name'', JString ''A'')]]),
        (''items'', JArray []),
        (''sections'', JArray []),
        (''labels'', JArray []),
        (''notes'', JArray []),
        (''filters'', JArray []),
        (''reminders'', JArray []),
        (''sync_token'', JString ''abc''),
        (''full_sync'', JBool True)]"

section \<open>Properties\<close>

subsection \<open>Decoding what \<^verbatim>\<open>json.dumps\<close> wrote\<close>

lemma hexval_hexdigit_table:
  "list_all (\<lambda>n. hexval (hexdigit n) = Some n) [0..<16]"
  by (simp add: upt_rec hexdigit_def hexval_def)

lemma hexval_hexdigit: "n < 16 \<Longrightarrow> hexval (hexdigit n) = Some n"
  using hexval_hexdigit_table by (simp add: list_all_iff)

lemma hexval_zero: "hexval (CHR ''0'') = Some 0"
  by (simp add: hexval_def)

lemma step_unicode_escape:
  fixes c :: char
  defines "n \<equiv> (of_char c :: nat)"
  shows "foldl step (InStr acc items)
           [CHR 0x5C, CHR ''u'', CHR ''0'', CHR ''0'', hexdigit (n div 16), hexdigit (n mod 16)]
         = InStr (c # acc) items"
proof -
  have n: "n < 256" by (simp add: n_def)
  then have hi: "hexval (hexdigit (n div 16)) = Some (n div 16)"
    by (intro hexval_hexdigit) simp
  have lo: "hexval (hexdigit (n mod 16)) = Some (n mod 16)"
    by (intro hexval_hexdigit) simp
  have whole: "char_of n = c"
    by (simp add: n_def)
  show ?thesis
    using n by (simp add: hexval_zero hi lo whole)
qed

lemma step_encode_char: "foldl step (InStr acc items) (encode_char c) = InStr (c # acc) items"
proof (cases "(of_char c :: nat) < 0x20 \<or> 0x7E < (of_char c :: nat)")
  case True
  then show ?thesis
    using step_unicode_escape [of acc items c]
    by (auto simp add: encode_char_def)
next
  case False
  then show ?thesis
    by (auto simp add: encode_char_def)
qed


lemma step_encoded_chars:
  "foldl step (InStr acc items) (concat (map encode_char s)) = InStr (rev s @ acc) items"
  by (induction s arbitrary: acc) (simp_all add: step_encode_char)

lemma not_blank [simp]:
  "\<not> blank (CHR ''['')" "\<not> blank (CHR '']'')" "\<not> blank (CHR '','')" "\<not> blank (CHR 0x22)"
  "blank (CHR '' '')"
  by (simp_all add: blank_def)

lemma step_first_string:
  "foldl step Opened (encode_basestring_ascii s @ rest) = foldl step (AfterStr [s]) rest"
  by (simp add: encode_basestring_ascii_def step_encoded_chars)

lemma step_next_string:
  "foldl step (AfterStr items) ('', '' @ encode_basestring_ascii s @ rest)
     = foldl step (AfterStr (s # items)) rest"
  by (simp add: encode_basestring_ascii_def step_encoded_chars)

lemma step_more_strings:
  "foldl step (AfterStr items)
     (concat (map (\<lambda>y. '', '' @ encode_basestring_ascii y) ys) @ rest)
     = foldl step (AfterStr (rev ys @ items)) rest"
proof (induction ys arbitrary: items)
  case Nil
  show ?case by simp
next
  case (Cons y ys)
  have "foldl step (AfterStr items)
          (concat (map (\<lambda>y. '', '' @ encode_basestring_ascii y) (y # ys)) @ rest)
        = foldl step (AfterStr items)
            ('', '' @ encode_basestring_ascii y
               @ (concat (map (\<lambda>y. '', '' @ encode_basestring_ascii y) ys) @ rest))"
    by simp
  also have "\<dots> = foldl step (AfterStr (y # items))
                      (concat (map (\<lambda>y. '', '' @ encode_basestring_ascii y) ys) @ rest)"
    by (rule step_next_string)
  also have "\<dots> = foldl step (AfterStr (rev ys @ y # items)) rest"
    by (rule Cons.IH)
  finally show ?case by simp
qed

lemma join_as_concat:
  "join '', '' (encode_basestring_ascii x # map encode_basestring_ascii ys)
     = encode_basestring_ascii x @ concat (map (\<lambda>y. '', '' @ encode_basestring_ascii y) ys)"
  by (induction ys arbitrary: x) simp_all

lemma json_loads_dumps: "json_loads (json_dumps xs) = Some xs"
proof (cases xs)
  case Nil
  then show ?thesis by (simp add: json_loads_def json_dumps_def)
next
  case (Cons x ys)
  have "foldl step Start (json_dumps (x # ys))
        = foldl step Opened
            (encode_basestring_ascii x
               @ (concat (map (\<lambda>y. '', '' @ encode_basestring_ascii y) ys) @ '']''))"
    by (simp add: json_dumps_def join_as_concat)
  also have "\<dots> = foldl step (AfterStr [x])
                      (concat (map (\<lambda>y. '', '' @ encode_basestring_ascii y) ys) @ '']'')"
    by (rule step_first_string)
  also have "\<dots> = foldl step (AfterStr (rev ys @ [x])) '']''"
    by (rule step_more_strings)
  also have "\<dots> = Finished (rev ys @ [x])"
    by simp
  finally show ?thesis using Cons by (simp add: json_loads_def)
qed

subsection \<open>The request body\<close>

lemma selected_streams_loop:
  "foldl (\<lambda>acc entry. if P entry then acc @ [f entry] else acc) acc es
     = acc @ map f (filter P es)"
  by (induction es arbitrary: acc) simp_all

lemma selected_streams_eq:
  "selected_streams cat
     = map tap_stream_id (filter (\<lambda>e. resolve_selection_root (metadata e)) (streams cat))"
  by (simp add: selected_streams_def selected_streams_loop)

text \<open>
  C1. For every catalog, the body built by \<^verbatim>\<open>get_data\<close> has exactly the two fields
  \<^verbatim>\<open>sync_token\<close> and \<^verbatim>\<open>resource_types\<close>; the first is the wildcard \<^verbatim>\<open>*\<close>, and the second
  is a JSON text that decodes to the identifiers of exactly the selected entries of the
  catalog, in the catalog's order.
\<close>

theorem get_data_body:
  "map_of (get_data cfg cat st) ''sync_token'' = Some ''*''
   \<and> map_option json_loads (map_of (get_data cfg cat st) ''resource_types'')
       = Some (Some (map tap_stream_id
                      (filter (\<lambda>e. resolve_selection_root (metadata e)) (streams cat))))
   \<and> map fst (get_data cfg cat st) = [''sync_token'', ''resource_types'']"
  by (simp add: get_data_def json_loads_dumps selected_streams_eq)

theorem get_data_body_witness:
  "map_of (get_data [] example_catalog []) ''sync_token'' = Some ''*''
   \<and> map_option json_loads (map_of (get_data [] example_catalog []) ''resource_types'')
       = Some (Some [''projects'', ''labels''])"
proof -
  have sel: "map tap_stream_id
          (filter (\<lambda>e. resolve_selection_root (metadata e)) (streams example_catalog))
        = [''projects'', ''labels'']"
    by (simp add: example_catalog_def example_entry_def streams_def resolve_selection_root_def
        Metadata_init_def)
  show ?thesis
    using get_data_body [of "[]" example_catalog "[]"] unfolding sel by blast
qed

subsection \<open>The schema registry\<close>

text \<open>
  C8. The table has the seven stream names projects, items, sections, labels, notes,
  filters and reminders, and for each of them the lookup returns a property list that is
  not empty and has a property named \<^verbatim>\<open>id\<close>.
\<close>

theorem schema_for_declared_streams:
  "map fst SCHEMAS
     = [''projects'', ''items'', ''sections'', ''labels'', ''notes'', ''filters'', ''reminders'']
   \<and> (\<forall>stream \<in> set (map fst SCHEMAS).
         \<exists>properties. schema_for stream = Inr properties \<and> properties \<noteq> []
            \<and> ''id'' \<in> set (map name properties))"
  by (simp add: SCHEMAS_def schema_for_def projects_schema_def items_schema_def
      sections_schema_def labels_schema_def notes_schema_def filters_schema_def
      reminders_schema_def th_prop_def th_prop_req_d_def)

theorem schema_for_declared_streams_witness:
  "''notes'' \<in> set (map fst SCHEMAS) \<and> schema_for ''notes'' = Inr notes_schema
   \<and> notes_schema \<noteq> [] \<and> ''id'' \<in> set (map name notes_schema)"
proof -
  have member: "''notes'' \<in> set (map fst SCHEMAS)"
    by (simp add: SCHEMAS_def)
  have found: "schema_for ''notes'' = Inr notes_schema"
    by (simp add: schema_for_def SCHEMAS_def)
  from schema_for_declared_streams member
  have "\<exists>properties. schema_for ''notes'' = Inr properties \<and> properties \<noteq> []
            \<and> ''id'' \<in> set (map name properties)"
    by blast
  with member found show ?thesis by simp
qed

subsection \<open>Bearer authentication\<close>

lemma lower_examples:
  "lower ''Authorization'' = ''authorization''" "lower ''Content-Type'' = ''content-type''"
  by code_simp+

text \<open>
  C10. For every token and every request, the call of the authentication object returns
  the request with nothing changed but its headers; the header \<^verbatim>\<open>Authorization\<close> then
  reads \<^verbatim>\<open>Bearer\<close>, a space and the token, and every header of another name, names
  compared without regard to case as the header dictionary does, is as it was.
\<close>

theorem bearer_auth_frame:
  "BearerAuth_call (BearerAuth tok) request
     = request\<lparr>headers := headers (BearerAuth_call (BearerAuth tok) request)\<rparr>
   \<and> cid_getitem (headers (BearerAuth_call (BearerAuth tok) request)) ''Authorization''
       = Some (''Bearer '' @ tok)
   \<and> (\<forall>key. lower key \<noteq> lower ''Authorization'' \<longrightarrow>
         map_of (headers (BearerAuth_call (BearerAuth tok) request)) (lower key)
           = map_of (headers request) (lower key)
         \<and> cid_getitem (headers (BearerAuth_call (BearerAuth tok) request)) key
           = cid_getitem (headers request) key)"
  by (simp add: BearerAuth_call_def cid_setitem_def cid_getitem_def update_conv')

theorem bearer_auth_frame_witness:
  "lower ''Content-Type'' \<noteq> lower ''Authorization''
   \<and> cid_getitem (headers (BearerAuth_call (BearerAuth ''secret'') example_request))
         ''Authorization'' = Some ''Bearer secret''
   \<and> cid_getitem (headers (BearerAuth_call (BearerAuth ''secret'') example_request))
         ''Content-Type'' = Some ''application/x-www-form-urlencoded''"
proof -
  have other: "lower ''Content-Type'' \<noteq> lower ''Authorization''"
    by (simp add: lower_examples)
  have before: "cid_getitem (headers example_request) ''Content-Type''
                  = Some ''application/x-www-form-urlencoded''"
    by (simp add: example_request_def session_prepare_request_def sync_headers_def
        cid_setitem_def cid_getitem_def lower_examples)
  from bearer_auth_frame [of "''secret''" example_request] other before
  show ?thesis by simp
qed

subsection \<open>Reading the records of a stream\<close>

text \<open>
  C3. Reading a stream fails with the missing-stream error exactly when no response is
  stored, as in a client on which \<^verbatim>\<open>prepare\<close> has not run, or when the stored document
  does not have the stream's name as a key; a read fails in no other way, and when the
  name is a key of the stored document the read returns.
\<close>

theorem get_records_missing_stream:
  "((\<exists>e. get_records self stream = Inl e \<and> MissingStreamError e)
      \<longleftrightarrow> (data self = JNull \<or> \<not> has_key (data self) stream))
   \<and> (\<forall>e. get_records self stream = Inl e \<longrightarrow> MissingStreamError e)
   \<and> (has_key (data self) stream \<longrightarrow> (\<exists>records. get_records self stream = Inr records))
   \<and> data TodoistClient_init = JNull"
  by (cases "data self")
     (auto simp add: get_records_def TodoistClient_init_def split: option.splits)

theorem get_records_missing_stream_witness:
  "data TodoistClient_init = JNull
   \<and> get_records TodoistClient_init ''projects'' = Inl TypeError
   \<and> MissingStreamError TypeError
   \<and> \<not> has_key example_document ''labels''
   \<and> get_records (TodoistClient_init\<lparr>data := example_document\<rparr>) ''labels''
       = Inl (KeyError ''labels'')
   \<and> MissingStreamError (KeyError ''labels'')"
  using get_records_missing_stream [of TodoistClient_init "''projects''"]
    get_records_missing_stream [of "TodoistClient_init\<lparr>data := example_document\<rparr>" "''labels''"]
  by (simp add: get_records_def TodoistClient_init_def example_document_def)

subsection \<open>The steps of \<^verbatim>\<open>prepare\<close>\<close>

lemmas prepare_defs =
  prepare_def HTTPConnector_prepare_def prepare_session_def get_auth_def send_request_def
  raise_for_status_def response_json_def

lemma prepare_without_token:
  "map_of cfg ''token'' = None \<Longrightarrow> prepare net cfg cat st self = (Inl (KeyError ''token''), self)"
  by (simp add: prepare_defs)

lemma example_prepare:
  "prepare (answer_with \<lparr>status_code = code, json_body = Some example_document\<rparr>)
     example_config [] [] TodoistClient_init
   = (if 400 \<le> code \<and> code < 600 then
        (Inl (HTTPError code),
         TodoistClient_init
           \<lparr>session_auth := Some (BearerAuth ''secret''),
            trace := [Request (BearerAuth_call (BearerAuth ''secret'') example_request)]\<rparr>)
      else
        (Inr (),
         TodoistClient_init
           \<lparr>session_auth := Some (BearerAuth ''secret''),
            trace := [Request (BearerAuth_call (BearerAuth ''secret'') example_request)],
            data := example_document\<rparr>))"
  by (simp add: prepare_defs example_config_def TodoistClient_init_def answer_with_def
      example_request_def session_prepare_request_def get_data_def selected_streams_def
      streams_def json_dumps_def example_document_def)

lemma prepare_answer_error:
  "map_of cfg ''token'' = Some tok \<Longrightarrow> 400 \<le> code \<Longrightarrow> code < 600
   \<Longrightarrow> fst (prepare (answer_with \<lparr>status_code = code, json_body = b\<rparr>) cfg cat st c)
         = Inl (HTTPError code)"
  by (simp add: prepare_defs answer_with_def)

subsection \<open>Traces\<close>

text \<open>What each operation appends to the trace.\<close>

lemma trace_discover: "trace (snd (discover cfg c)) = trace c @ [Discover]"
  by (simp add: discover_def Let_def)

lemma trace_prepare:
  "trace (snd (prepare net cfg cat st c)) = trace c
   \<or> (\<exists>r. trace (snd (prepare net cfg cat st c)) = trace c @ [Request r])"
  by (auto simp add: prepare_defs Let_def split: option.splits sum.splits)

lemma trace_prepare_ok:
  "fst (prepare net cfg cat st c) = Inr u
   \<Longrightarrow> \<exists>r. trace (snd (prepare net cfg cat st c)) = trace c @ [Request r]"
  by (auto simp add: prepare_defs Let_def split: option.splits sum.splits)

lemma trace_sync_streams:
  "\<exists>names. trace (snd (sync_streams ss c)) = trace c @ map Read names"
proof (induction ss arbitrary: c)
  case Nil
  have "trace (snd (sync_streams [] c)) = trace c @ map Read []" by simp
  then show ?case by blast
next
  case (Cons s ss)
  let ?c = "c\<lparr>trace := trace c @ [Read (stream_name s)]\<rparr>"
  show ?case
  proof (cases "get_records ?c (stream_name s)")
    case (Inl e)
    then have "trace (snd (sync_streams (s # ss) c)) = trace c @ map Read [stream_name s]"
      by (simp add: Let_def)
    then show ?thesis by blast
  next
    case (Inr records)
    from Cons.IH [of ?c] obtain names
      where "trace (snd (sync_streams ss ?c)) = trace ?c @ map Read names" by blast
    with Inr have "trace (snd (sync_streams (s # ss) c))
        = trace c @ map Read (stream_name s # names)"
      by (simp add: Let_def)
    then show ?thesis by blast
  qed
qed

lemma advance_reads:
  "p = Fetched \<or> p = Emitting \<Longrightarrow> foldl advance p (map Read names) \<noteq> OutOfOrder"
  by (induction names arbitrary: p) auto

lemma reads_are_reads: "filter is_request (map Read names) = []"
  by (induction names) simp_all


subsection \<open>Fetching, then reading\<close>

text \<open>
  C2. After a \<^verbatim>\<open>prepare\<close> that returned normally, whose request the network answered
  with a response whose parsed document is a dictionary with the stream's name as a key,
  reading that stream returns exactly the value stored under the key in the document.
\<close>

theorem get_records_after_prepare:
  assumes "prepare net cfg cat st self = (Inr (), self')"
    and "trace self' = trace self @ [Request request]"
    and "net request = Inr response"
    and "json_body response = Some (JObject kvs)"
    and "map_of kvs stream = Some records"
  shows "get_records self' stream = Inr records"
  using assms
  by (auto simp add: prepare_defs Let_def get_records_def
      split: option.splits sum.splits if_splits)

theorem get_records_after_prepare_witness:
  "fst (prepare (answer_with \<lparr>status_code = 200, json_body = Some example_document\<rparr>)
          example_config [] [] TodoistClient_init) = Inr ()
   \<and> get_records
        (snd (prepare (answer_with \<lparr>status_code = 200, json_body = Some example_document\<rparr>)
                example_config [] [] TodoistClient_init))
        ''projects''
       = Inr (JArray [JObject [(''id'', JString ''1''), (''name'', JString ''A'')]])"
proof -
  let ?response = "\<lparr>status_code = 200, json_body = Some example_document\<rparr>"
  let ?request = "BearerAuth_call (BearerAuth ''secret'') example_request"
  let ?after = "TodoistClient_init
           \<lparr>session_auth := Some (BearerAuth ''secret''),
            trace := [Request ?request], data := example_document\<rparr>"
  have run: "prepare (answer_with ?response) example_config [] [] TodoistClient_init
               = (Inr (), ?after)"
    by (simp add: example_prepare)
  have sent: "trace ?after = trace TodoistClient_init @ [Request ?request]"
    by (simp add: TodoistClient_init_def)
  have answer: "answer_with ?response ?request = Inr ?response"
    by (simp add: answer_with_def)
  have parsed: "json_body ?response
      = Some (JObject
          [(''projects'', JArray [JObject [(''id'', JString ''1''), (''name'', JString ''A'')]]),
           (''sync_token'', JString ''abc''), (''full_sync'', JBool True)])"
    by (simp add: example_document_def)
  have "get_records ?after ''projects''
          = Inr (JArray [JObject [(''id'', JString ''1''), (''name'', JString ''A'')]])"
    by (rule get_records_after_prepare [OF run sent answer parsed]) simp
  with run show ?thesis by simp
qed

text \<open>
  C4, as amended. When the response to the sync request has a status from 400 to 599,
  \<^verbatim>\<open>prepare\<close> raises the transport error carrying that status and the stored data is what
  it was before; if it was unset, every read of a stream fails afterwards.
\<close>

theorem prepare_error_status:
  assumes "trace (snd (prepare net cfg cat st self)) = trace self @ [Request request]"
    and "net request = Inr response"
    and "400 \<le> status_code response" and "status_code response < 600"
  shows "fst (prepare net cfg cat st self) = Inl (HTTPError (status_code response))
    \<and> TransportError (HTTPError (status_code response))
    \<and> data (snd (prepare net cfg cat st self)) = data self
    \<and> (data self = JNull \<longrightarrow>
          (\<forall>stream. get_records (snd (prepare net cfg cat st self)) stream = Inl TypeError))"
  using assms
  by (auto simp add: prepare_defs Let_def get_records_def
      split: option.splits sum.splits if_splits)

theorem prepare_error_status_witness:
  "fst (prepare (answer_with \<lparr>status_code = 500, json_body = Some example_document\<rparr>)
          example_config [] [] TodoistClient_init) = Inl (HTTPError 500)
   \<and> data (snd (prepare (answer_with \<lparr>status_code = 500, json_body = Some example_document\<rparr>)
                  example_config [] [] TodoistClient_init)) = JNull
   \<and> get_records
        (snd (prepare (answer_with \<lparr>status_code = 500, json_body = Some example_document\<rparr>)
                example_config [] [] TodoistClient_init))
        ''projects'' = Inl TypeError"
proof -
  let ?response = "\<lparr>status_code = 500, json_body = Some example_document\<rparr>"
  let ?request = "BearerAuth_call (BearerAuth ''secret'') example_request"
  let ?run = "prepare (answer_with ?response) example_config [] [] TodoistClient_init"
  have sent: "trace (snd ?run) = trace TodoistClient_init @ [Request ?request]"
    unfolding example_prepare by (simp add: TodoistClient_init_def)
  have answer: "answer_with ?response ?request = Inr ?response"
    by (simp add: answer_with_def)
  have unset: "data TodoistClient_init = JNull"
    by (simp add: TodoistClient_init_def)
  from prepare_error_status [OF sent answer] unset show ?thesis
    by simp
qed

text \<open>
  C4 as stated fails for a status outside 200 to 299 that is no error status: with 304
  and a well-formed document, \<^verbatim>\<open>prepare\<close> returns normally, the data is stored, and the
  records of a stream can be read.
\<close>

theorem prepare_redirect_status_counterexample:
  "\<not> (200 \<le> (304::nat) \<and> (304::nat) < 300)
   \<and> fst (prepare (answer_with \<lparr>status_code = 304, json_body = Some example_document\<rparr>)
            example_config [] [] TodoistClient_init) = Inr ()
   \<and> data (snd (prepare (answer_with \<lparr>status_code = 304, json_body = Some example_document\<rparr>)
                  example_config [] [] TodoistClient_init)) \<noteq> data TodoistClient_init
   \<and> get_records
        (snd (prepare (answer_with \<lparr>status_code = 304, json_body = Some example_document\<rparr>)
                example_config [] [] TodoistClient_init))
        ''projects''
       = Inr (JArray [JObject [(''id'', JString ''1''), (''name'', JString ''A'')]])"
  unfolding example_prepare
  by (simp add: get_records_def example_document_def TodoistClient_init_def)

text \<open>
  C5. When the configuration has no \<^verbatim>\<open>token\<close>, which the configuration schema requires,
  \<^verbatim>\<open>get_auth\<close> fails with the configuration error, \<^verbatim>\<open>prepare\<close> fails with it and leaves the
  client as it was, and a whole run fails with it without a request having been sent.
\<close>

theorem missing_token_fails_before_request:
  assumes "map_of cfg ''token'' = None"
  shows "''token'' \<in> set (required_names config_jsonschema)
    \<and> get_auth cfg cat st = Inl (KeyError ''token'')
    \<and> ConfigurationError (KeyError ''token'')
    \<and> prepare net cfg cat st self = (Inl (KeyError ''token''), self)
    \<and> (tap_config tap = cfg \<longrightarrow>
          fst (sync_all net sel tap) = Inl (KeyError ''token'')
          \<and> filter is_request (trace (client (snd (sync_all net sel tap))))
              = filter is_request (trace (client tap)))"
  using assms
  by (auto simp add: required_names_def config_jsonschema_def get_auth_def
      prepare_without_token sync_all_def trace_discover [simplified discover_def Let_def]
      discover_def Let_def split: prod.splits)

theorem missing_token_fails_before_request_witness:
  "map_of ([] :: ConfigDict) ''token'' = None
   \<and> prepare (answer_with \<lparr>status_code = 200, json_body = Some example_document\<rparr>)
         [] [] [] TodoistClient_init = (Inl (KeyError ''token''), TodoistClient_init)
   \<and> fst (sync_all (answer_with \<lparr>status_code = 200, json_body = Some example_document\<rparr>)
            every_stream (example_tap\<lparr>tap_config := []\<rparr>)) = Inl (KeyError ''token'')
   \<and> filter is_request (trace (client (snd (sync_all
           (answer_with \<lparr>status_code = 200, json_body = Some example_document\<rparr>)
           every_stream (example_tap\<lparr>tap_config := []\<rparr>))))) = []"
  using missing_token_fails_before_request
    [of "[]" "[]" "[]" "answer_with \<lparr>status_code = 200, json_body = Some example_document\<rparr>"
        TodoistClient_init "example_tap\<lparr>tap_config := []\<rparr>" every_stream]
  by (simp add: example_tap_def TodoistClient_init_def)

subsection \<open>Discovery\<close>

text \<open>Storing a list of entries with distinct keys in a dictionary, one after the other.\<close>

lemma store_other:
  "k \<notin> f ` set es
   \<Longrightarrow> map_of (foldl (\<lambda>c e. AList.update (f e) (g e) c) c es) k = map_of c k"
  by (induction es arbitrary: c) (simp_all add: update_conv')

lemma store_found:
  "distinct (map f es) \<Longrightarrow> e \<in> set es
   \<Longrightarrow> map_of (foldl (\<lambda>c e. AList.update (f e) (g e) c) c es) (f e) = Some (g e)"
proof (induction es arbitrary: c)
  case Nil
  then show ?case by simp
next
  case (Cons x xs)
  show ?case
  proof (cases "e = x")
    case True
    with Cons.prems have "f x \<notin> f ` set xs" by simp
    then show ?thesis
      using True by (simp add: store_other update_conv')
  next
    case False
    with Cons show ?thesis by simp
  qed
qed


lemma store_again:
  "\<forall>e \<in> set es. map_of c (f e) = Some (g e)
   \<Longrightarrow> foldl (\<lambda>c e. AList.update (f e) (g e) c) c es = c"
  by (induction es) (simp_all add: update_triv)

lemma entries_ids:
  "map tap_stream_id (discover_catalog_entries cfg) = map fst SCHEMAS"
  by (simp add: discover_catalog_entries_def SCHEMAS_def)

lemma entries_distinct: "distinct (map tap_stream_id (discover_catalog_entries cfg))"
  by (simp add: entries_ids) (simp add: SCHEMAS_def)


lemma discover_catalog_eq:
  "fst (discover cfg self)
     = foldl (\<lambda>c e. AList.update (tap_stream_id e)
                 (e\<lparr>metadata := set_root_selected (metadata e)\<rparr>) c)
         (catalog self) (discover_catalog_entries None)"
  "catalog (snd (discover cfg self)) = fst (discover cfg self)"
  by (simp_all add: discover_def Let_def)




text \<open>
  C7. Discovery is idempotent: a second call, on the client as the first call left it,
  returns the catalog that the first call returned, entry for entry, and leaves the
  same catalog in the client.
\<close>

theorem discover_idempotent:
  "fst (discover cfg (snd (discover cfg self))) = fst (discover cfg self)
   \<and> catalog (snd (discover cfg (snd (discover cfg self)))) = catalog (snd (discover cfg self))"
proof -
  let ?g = "\<lambda>e. e\<lparr>metadata := set_root_selected (metadata e)\<rparr>"
  let ?once = "fst (discover cfg self)"
  have "\<forall>e \<in> set (discover_catalog_entries None).
          map_of ?once (tap_stream_id e) = Some (?g e)"
    using store_found [OF entries_distinct, of _ None ?g "catalog self"]
    by (simp add: discover_catalog_eq)
  from store_again [OF this]
  have "fst (discover cfg (snd (discover cfg self))) = ?once"
    by (simp add: discover_catalog_eq)
  then show ?thesis by (simp add: discover_catalog_eq)
qed

theorem discover_idempotent_witness:
  "fst (discover example_config (snd (discover example_config TodoistClient_init)))
     = fst (discover example_config TodoistClient_init)"
  using discover_idempotent [of example_config TodoistClient_init] by blast

subsection \<open>The order of a run\<close>

text \<open>
  Loading the streams runs the client's discovery and changes neither the catalog of a
  client that has discovered before nor the stored response.
\<close>

lemmas loading_defs =
  Tap_streams_def load_streams_def discover_streams_def catalog_dict_def singer_catalog_def

lemma trace_Tap_streams:
  "trace (client (snd (Tap_streams t))) = trace (client t) @ [Discover]"
  by (simp add: loading_defs case_prod_beta trace_discover)

lemma catalog_Tap_streams:
  "catalog (client (snd (Tap_streams t))) = fst (discover (tap_config t) (client t))"
  by (simp add: loading_defs case_prod_beta discover_catalog_eq)

lemma data_Tap_streams: "data (client (snd (Tap_streams t))) = data (client t)"
  by (simp add: loading_defs case_prod_beta discover_def Let_def)

lemma client_Tap_sync_all:
  "client (snd (Tap_sync_all sel t))
     = snd (sync_streams (filter sel (fst (Tap_streams t))) (client (snd (Tap_streams t))))"
  by (simp add: Tap_sync_all_def case_prod_beta)

lemma result_Tap_sync_all:
  "fst (Tap_sync_all sel t)
     = fst (sync_streams (filter sel (fst (Tap_streams t))) (client (snd (Tap_streams t))))"
  by (simp add: Tap_sync_all_def case_prod_beta)

lemma catalog_sync_streams: "catalog (snd (sync_streams ss c)) = catalog c"
  by (induction ss arbitrary: c) (simp_all add: Let_def split: sum.splits)

lemma catalog_prepare: "catalog (snd (prepare net cfg cat st c)) = catalog c"
  by (auto simp add: prepare_defs Let_def split: option.splits sum.splits)

lemma rediscover:
  assumes "catalog c' = fst (discover cfg c)"
  shows "fst (discover cfg' c') = catalog c'"
proof -
  let ?g = "\<lambda>e. e\<lparr>metadata := set_root_selected (metadata e)\<rparr>"
  have "\<forall>e \<in> set (discover_catalog_entries None).
          map_of (catalog c') (tap_stream_id e) = Some (?g e)"
    using store_found [OF entries_distinct, of _ None ?g "catalog c"]
    by (simp add: assms discover_catalog_eq)
  from store_again [OF this] show ?thesis
    by (simp add: discover_catalog_eq)
qed

lemma proceed_reads:
  "p = StreamsLoaded \<or> p = ReadingStreams
   \<Longrightarrow> foldl proceed p (map Read names) \<noteq> Misordered"
  by (induction names arbitrary: p) auto

lemma reads_all: "list_all is_read (map Read names)"
  by (induction names) simp_all

lemma data_sync_streams: "data (snd (sync_streams ss c)) = data c"
  by (induction ss arbitrary: c) (simp_all add: Let_def split: sum.splits)

lemma prepare_answer_ok:
  "map_of cfg ''token'' = Some tok \<Longrightarrow> \<not> (400 \<le> code \<and> code < 600)
   \<Longrightarrow> has_key doc ''full_sync'' \<Longrightarrow> has_key doc ''sync_token''
   \<Longrightarrow> fst (prepare (answer_with \<lparr>status_code = code, json_body = Some doc\<rparr>) cfg cat st c)
         = Inr ()"
  by (cases doc) (auto simp add: prepare_defs answer_with_def Let_def split: option.splits)

lemma named_discover: "event_name e = ''discover'' \<longleftrightarrow> e = Discover"
  by (cases e) simp_all

lemma named_request: "event_name e = ''request'' \<longleftrightarrow> (\<exists>r. e = Request r)"
  by (cases e) simp_all

lemma out_of_order_stays: "foldl advance OutOfOrder evs = OutOfOrder"
  by (induction evs) simp_all

lemma second_discovery_not_single_pass:
  assumes "map event_name evs = ''discover'' # ''request'' # ''discover'' # rest"
  shows "\<not> single_pass evs"
proof -
  from assms obtain r evs' where "evs = Discover # Request r # Discover # evs'"
    by (auto simp add: map_eq_Cons_conv named_discover named_request)
  then show ?thesis
    by (simp add: single_pass_def out_of_order_stays)
qed

lemma example_run:
  "(case sync_all (answer_with \<lparr>status_code = 200, json_body = Some example_full_document\<rparr>)
           every_stream example_tap of
      (r, t) \<Rightarrow> (r, map event_name (trace (client t))))
   = (Inr (),
      [''discover'', ''request'', ''discover'', ''read filters'', ''read items'',
       ''read labels'', ''read notes'', ''read projects'', ''read reminders'',
       ''read sections''])"
  by code_simp

lemma example_run_parts:
  "fst (sync_all (answer_with \<lparr>status_code = 200, json_body = Some example_full_document\<rparr>)
          every_stream example_tap) = Inr ()"
  "map event_name (trace (client (snd (sync_all
       (answer_with \<lparr>status_code = 200, json_body = Some example_full_document\<rparr>)
       every_stream example_tap))))
     = [''discover'', ''request'', ''discover'', ''read filters'', ''read items'',
        ''read labels'', ''read notes'', ''read projects'', ''read reminders'',
        ''read sections'']"
  using example_run by (simp_all add: case_prod_beta)

text \<open>
  C9, as amended. In a run that starts with an empty trace, discovery comes first and
  the one request follows it. When \<^verbatim>\<open>prepare\<close> fails, the run fails with the same error
  and ends in the client state that \<^verbatim>\<open>prepare\<close> left: nothing is loaded or read. When
  \<^verbatim>\<open>prepare\<close> succeeds, the streams are loaded next, which is a second discovery that
  leaves the catalog and the stored response as they were, and everything after it is a
  read of a stream; the request is not repeated.
\<close>

theorem sync_all_order:
  assumes "trace (client tap) = []"
  shows "let c1 = snd (discover (tap_config tap) (client tap));
             fetched = prepare net (tap_config tap) (prepare_catalog tap c1) (tap_state tap) c1;
             run = sync_all net sel tap;
             evs = trace (client (snd run))
         in in_order evs
            \<and> take 1 evs = [Discover]
            \<and> length (filter is_request evs) \<le> 1
            \<and> (\<forall>e. fst fetched = Inl e \<longrightarrow>
                  fst run = Inl e \<and> client (snd run) = snd fetched
                  \<and> length evs \<le> 2 \<and> filter is_read evs = [])
            \<and> (fst fetched = Inr () \<longrightarrow>
                  take 3 evs = trace (snd fetched) @ [Discover]
                  \<and> length (filter is_request evs) = 1
                  \<and> list_all is_read (drop 3 evs)
                  \<and> catalog (client (snd run)) = catalog (snd fetched)
                  \<and> data (client (snd run)) = data (snd fetched))"
proof -
  define c1 where "c1 = snd (discover (tap_config tap) (client tap))"
  define fetched where
    "fetched = prepare net (tap_config tap) (prepare_catalog tap c1) (tap_state tap) c1"
  define run where "run = sync_all net sel tap"
  define evs where "evs = trace (client (snd run))"
  obtain d where discovered: "discover (tap_config tap) (client tap) = (d, c1)"
    by (cases "discover (tap_config tap) (client tap)") (simp add: c1_def)
  have t1: "trace c1 = [Discover]"
    using assms by (simp add: c1_def trace_discover)
  have cat1: "catalog c1 = fst (discover (tap_config tap) (client tap))"
    by (simp add: c1_def discover_catalog_eq)
  obtain res c2 where pair: "fetched = (res, c2)"
    by (cases fetched) simp
  have raw: "prepare net (tap_config tap) (prepare_catalog tap c1) (tap_state tap) c1 = (res, c2)"
    using pair by (simp add: fetched_def)
  have cat2: "catalog c2 = catalog c1"
    using catalog_prepare [of net "tap_config tap" "prepare_catalog tap c1" "tap_state tap" c1]
    by (simp add: raw)
  have goal: "in_order evs
            \<and> take 1 evs = [Discover]
            \<and> length (filter is_request evs) \<le> 1
            \<and> (\<forall>e. fst fetched = Inl e \<longrightarrow>
                  fst run = Inl e \<and> client (snd run) = snd fetched
                  \<and> length evs \<le> 2 \<and> filter is_read evs = [])
            \<and> (fst fetched = Inr () \<longrightarrow>
                  take 3 evs = trace (snd fetched) @ [Discover]
                  \<and> length (filter is_request evs) = 1
                  \<and> list_all is_read (drop 3 evs)
                  \<and> catalog (client (snd run)) = catalog (snd fetched)
                  \<and> data (client (snd run)) = data (snd fetched))"
  proof (cases res)
    case (Inl e)
    have run_eq: "run = (Inl e, tap\<lparr>client := c2\<rparr>)"
      unfolding run_def sync_all_def discovered
      using raw Inl by simp
    from trace_prepare [of net "tap_config tap" "prepare_catalog tap c1" "tap_state tap" c1]
    have "trace c2 = [Discover] \<or> (\<exists>r. trace c2 = [Discover, Request r])"
      by (simp add: raw t1)
    then have "in_order (trace c2)
        \<and> take 1 (trace c2) = [Discover]
        \<and> length (filter is_request (trace c2)) \<le> 1
        \<and> length (trace c2) \<le> 2
        \<and> filter is_read (trace c2) = []"
      by (auto simp add: in_order_def)
    then show ?thesis
      using Inl by (simp add: evs_def run_eq pair)
  next
    case (Inr u)
    let ?t = "tap\<lparr>client := c2\<rparr>"
    from trace_prepare_ok [of net "tap_config tap" "prepare_catalog tap c1" "tap_state tap" c1 u]
    obtain r where t2: "trace c2 = [Discover, Request r]"
      by (auto simp add: raw Inr t1)
    have run_eq: "run = Tap_sync_all sel ?t"
      unfolding run_def sync_all_def discovered
      using raw Inr by simp
    have loaded: "trace (client (snd (Tap_streams ?t))) = [Discover, Request r, Discover]"
      by (simp add: trace_Tap_streams t2)
    obtain names where t3: "evs = [Discover, Request r, Discover] @ map Read names"
      using trace_sync_streams
        [of "filter sel (fst (Tap_streams ?t))" "client (snd (Tap_streams ?t))"]
      by (auto simp add: evs_def run_eq client_Tap_sync_all loaded)
    have "catalog (client (snd run)) = fst (discover (tap_config ?t) c2)"
      using catalog_Tap_streams [of ?t]
      by (simp add: run_eq client_Tap_sync_all catalog_sync_streams)
    also have "\<dots> = catalog c2"
      by (rule rediscover [of c2 "tap_config tap" "client tap"]) (simp add: cat2 cat1)
    finally have same_catalog: "catalog (client (snd run)) = catalog c2" .
    have same_data: "data (client (snd run)) = data c2"
      using data_Tap_streams [of ?t]
      by (simp add: run_eq client_Tap_sync_all data_sync_streams)
    have "in_order evs"
      using proceed_reads [of StreamsLoaded names] by (simp add: t3 in_order_def)
    moreover have "take 1 evs = [Discover]" "take 3 evs = trace c2 @ [Discover]"
      by (simp_all add: t3 t2)
    moreover have "length (filter is_request evs) = 1"
      by (simp add: t3 reads_are_reads)
    moreover have "list_all is_read (drop 3 evs)"
      by (simp add: t3 reads_all)
    ultimately show ?thesis
      using Inr same_catalog same_data by (simp add: pair)
  qed
  then show ?thesis
    by (simp add: Let_def c1_def [symmetric] fetched_def [symmetric] run_def [symmetric]
        evs_def [symmetric])
qed

theorem sync_all_order_witness:
  "trace (client example_tap) = []
   \<and> fst (prepare (answer_with \<lparr>status_code = 200, json_body = Some example_full_document\<rparr>)
           (tap_config example_tap)
           (prepare_catalog example_tap
              (snd (discover (tap_config example_tap) (client example_tap))))
           (tap_state example_tap)
           (snd (discover (tap_config example_tap) (client example_tap)))) = Inr ()
   \<and> in_order (trace (client (snd (sync_all
         (answer_with \<lparr>status_code = 200, json_body = Some example_full_document\<rparr>)
         every_stream example_tap))))
   \<and> list_all is_read (drop 3 (trace (client (snd (sync_all
         (answer_with \<lparr>status_code = 200, json_body = Some example_full_document\<rparr>)
         every_stream example_tap)))))
   \<and> fst (sync_all (answer_with \<lparr>status_code = 200, json_body = Some example_full_document\<rparr>)
           every_stream example_tap) = Inr ()
   \<and> map event_name (trace (client (snd (sync_all
         (answer_with \<lparr>status_code = 200, json_body = Some example_full_document\<rparr>)
         every_stream example_tap))))
       = [''discover'', ''request'', ''discover'', ''read filters'', ''read items'',
          ''read labels'', ''read notes'', ''read projects'', ''read reminders'',
          ''read sections'']"
proof -
  let ?net = "answer_with \<lparr>status_code = 200, json_body = Some example_full_document\<rparr>"
  let ?c1 = "snd (discover (tap_config example_tap) (client example_tap))"
  have fresh: "trace (client example_tap) = []"
    by (simp add: example_tap_def TodoistClient_init_def)
  have "map_of (tap_config example_tap) ''token'' = Some ''secret''"
    by (simp add: example_tap_def example_config_def)
  then have fetched: "fst (prepare ?net (tap_config example_tap)
        (prepare_catalog example_tap ?c1) (tap_state example_tap) ?c1) = Inr ()"
    by (rule prepare_answer_ok) (simp_all add: example_full_document_def)
  from sync_all_order [OF fresh, of ?net every_stream] fetched fresh example_run_parts
  show ?thesis unfolding Let_def by blast
qed

text \<open>
  C9 as stated fails on the clause that no phase is entered again: in a run whose fetch
  succeeds, discovery runs a second time after the request, so the trace is not accepted
  by the specification's phase machine. The streams are read in the order of their names.
\<close>

theorem sync_all_single_pass_counterexample:
  "trace (client example_tap) = []
   \<and> fst (sync_all (answer_with \<lparr>status_code = 200, json_body = Some example_full_document\<rparr>)
           every_stream example_tap) = Inr ()
   \<and> map event_name (trace (client (snd (sync_all
         (answer_with \<lparr>status_code = 200, json_body = Some example_full_document\<rparr>)
         every_stream example_tap))))
       = [''discover'', ''request'', ''discover'', ''read filters'', ''read items'',
          ''read labels'', ''read notes'', ''read projects'', ''read reminders'',
          ''read sections'']
   \<and> \<not> single_pass (trace (client (snd (sync_all
         (answer_with \<lparr>status_code = 200, json_body = Some example_full_document\<rparr>)
         every_stream example_tap))))"
proof -
  have fresh: "trace (client example_tap) = []"
    by (simp add: example_tap_def TodoistClient_init_def)
  from example_run_parts(2) have "\<not> single_pass (trace (client (snd (sync_all
         (answer_with \<lparr>status_code = 200, json_body = Some example_full_document\<rparr>)
         every_stream example_tap))))"
    by (rule second_discovery_not_single_pass)
  with fresh example_run_parts show ?thesis by blast
qed

end
